theory Spec2Isabelle
  imports Main "HOL-Library.Sublist" "HOL-Library.Word"
begin

section \<open>Outbound topic strings: \<open>formatTopic\<close>\<close>

text \<open>
  Go strings are byte sequences; they are modelled as \<open>string\<close> (a list of characters).
  \<open>strings.TrimPrefix\<close> and \<open>strings.TrimSuffix\<close> remove one occurrence of the given
  prefix or suffix when it is present and return the string unchanged otherwise.
\<close>

definition TrimPrefix :: "string \<Rightarrow> string \<Rightarrow> string" where
  "TrimPrefix s p = (if prefix p s then drop (length p) s else s)"

definition TrimSuffix :: "string \<Rightarrow> string \<Rightarrow> string" where
  "TrimSuffix s p = (if suffix p s then take (length s - length p) s else s)"

text \<open>
  The type \<open>Option\<close> is declared outside \<open>emitter.go\<close>; \<open>formatTopic\<close> only calls its
  \<open>String()\<close> method, so an option is modelled by the string that method returns.
\<close>

datatype Option = Option (String: string)

text \<open>
  The loop \<open>for i, option := range options\<close> of \<open>formatTopic\<close>, with the loop index and
  the accumulator \<open>opts\<close> explicit.
\<close>

function formatTopic_loop :: "Option list \<Rightarrow> nat \<Rightarrow> string \<Rightarrow> string" where
  "formatTopic_loop options i opts =
     (if i < length options
      then (let opts1 = opts @ String (options ! i);
                opts2 = (if i + 1 < length options then opts1 @ ''&'' else opts1)
            in formatTopic_loop options (i + 1) opts2)
      else opts)"
  by pat_completeness auto
termination
  by (relation "measure (\<lambda>(options, i, opts). length options - i)") auto

declare formatTopic_loop.simps [simp del]

definition formatTopic :: "string \<Rightarrow> string \<Rightarrow> Option list \<Rightarrow> string" where
  "formatTopic key0 channel0 options =
     (let key = TrimPrefix key0 ''/'';
          key = TrimSuffix key ''/'';
          channel = TrimPrefix channel0 ''/'';
          channel = TrimSuffix channel ''/'';
          opts = (if length options > 0 then formatTopic_loop options 0 ''?'' else '''')
      in if length key = 0
         then channel @ ''/'' @ opts
         else key @ ''/'' @ channel @ ''/'' @ opts)"




section \<open>Messages, responses and errors\<close>

text \<open>
  An inbound message as the dispatcher reads it: \<open>m.Topic()\<close> and \<open>m.Payload()\<close>.
\<close>

record Message =
  Topic :: string
  Payload :: string

text \<open>
  Modelled from the spec: the response types \<open>Error\<close>, \<open>keyGenResponse\<close>, \<open>Link\<close>,
  \<open>meResponse\<close> and \<open>PresenceEvent\<close> and the interface \<open>Response\<close> are declared
  outside \<open>emitter.go\<close>. Each carries the request identifier its \<open>RequestID()\<close> method
  returns (the transport's 16-bit message identifier) and the fields \<open>emitter.go\<close> reads:
  the error message returned by \<open>Error()\<close>, \<open>Key\<close>, \<open>Channel\<close> and the \<open>ID\<close> of a \<open>meResponse\<close>.
\<close>

datatype Error = Error (Error_RequestID: "16 word") (Error_Status: int) (Error_Error: string)

datatype keyGenResponse = keyGenResponse (keyGen_RequestID: "16 word") (Key: string)

datatype Link = Link (Link_RequestID: "16 word") (Name: string) (Channel: string)

datatype meResponse = meResponse (me_RequestID: "16 word") (meResponse_ID: string)

datatype PresenceEvent = PresenceEvent string

datatype Response =
    RespError Error
  | RespKeyGen keyGenResponse
  | RespLink Link
  | RespMe meResponse

fun RequestID :: "Response \<Rightarrow> 16 word" where
  "RequestID (RespError e) = Error_RequestID e"
| "RequestID (RespKeyGen r) = keyGen_RequestID r"
| "RequestID (RespLink r) = Link_RequestID r"
| "RequestID (RespMe r) = me_RequestID r"

text \<open>
  The errors a call of the client returns: the two package-level values \<open>ErrTimeout\<close>
  and \<open>ErrUnmarshal\<close>, the error of a transport token, and an error envelope of the
  service (the only response type that implements \<open>error\<close>).
\<close>

datatype error =
    ErrTimeout
  | ErrUnmarshal
  | TransportError string
  | ServiceError Error

text \<open>
  \<open>json.Unmarshal\<close> into each of the response types is taken as a parameter: a decoder
  returns \<open>None\<close> where \<open>json.Unmarshal\<close> returns an error.
\<close>

record codec =
  unmarshal_Error :: "string \<Rightarrow> Error option"
  unmarshal_PresenceEvent :: "string \<Rightarrow> PresenceEvent option"
  unmarshal_keyGenResponse :: "string \<Rightarrow> keyGenResponse option"
  unmarshal_Link :: "string \<Rightarrow> Link option"
  unmarshal_meResponse :: "string \<Rightarrow> meResponse option"

text \<open>The second argument of \<open>onResponse\<close>: which response type was allocated.\<close>

datatype resp_kind = new_keyGenResponse | new_Link | new_meResponse

definition unmarshal_Response :: "codec \<Rightarrow> resp_kind \<Rightarrow> string \<Rightarrow> Response option" where
  "unmarshal_Response cd k p =
     (case k of
        new_keyGenResponse \<Rightarrow> map_option RespKeyGen (unmarshal_keyGenResponse cd p)
      | new_Link \<Rightarrow> map_option RespLink (unmarshal_Link cd p)
      | new_meResponse \<Rightarrow> map_option RespMe (unmarshal_meResponse cd p))"

section \<open>The Topic Registry\<close>

text \<open>
  User callbacks are functions of the application; a callback is modelled by an
  identifier, and calling it is recorded as an effect.
\<close>

type_synonym MessageHandler = nat

text \<open>\<open>strings.Split(s, "/")\<close>: the segments of a string; the empty string has one segment.\<close>

fun split_slash :: "string \<Rightarrow> string list" where
  "split_slash [] = [[]]"
| "split_slash (c # cs) =
     (if c = CHR ''/'' then [] # split_slash cs
      else (case split_slash cs of
              [] \<Rightarrow> [[c]]
            | w # ws \<Rightarrow> (c # w) # ws))"

text \<open>
  Modelled from the spec: the type \<open>trie\<close> with \<open>newTrie\<close>, \<open>AddHandler\<close>,
  \<open>RemoveHandler\<close> and \<open>Lookup\<close> is declared outside \<open>emitter.go\<close>. Following section
  4.1 of the specification, a node holds the callbacks registered for the pattern that
  ends at it, in registration order, and its children by segment. \<open>Lookup\<close> walks the
  topic's segments, at each level through the child of the literal segment, then through
  the child of the single-level wildcard \<open>+\<close>, then takes the callbacks of the child of the
  multi-level wildcard \<open>#\<close>, which stands for all the remaining segments.
\<close>

datatype trie = Trie (node_handlers: "MessageHandler list") (node_children: "string \<rightharpoonup> trie")

definition newTrie :: trie where
  "newTrie = Trie [] Map.empty"

fun add_path :: "string list \<Rightarrow> MessageHandler \<Rightarrow> trie \<Rightarrow> trie" where
  "add_path [] h (Trie hs ch) = Trie (hs @ [h]) ch"
| "add_path (s # ss) h (Trie hs ch) =
     Trie hs (ch(s \<mapsto> add_path ss h (case ch s of None \<Rightarrow> Trie [] Map.empty | Some n \<Rightarrow> n)))"

fun remove_path :: "string list \<Rightarrow> trie \<Rightarrow> trie" where
  "remove_path [] (Trie hs ch) = Trie [] ch"
| "remove_path (s # ss) (Trie hs ch) =
     (case ch s of
        None \<Rightarrow> Trie hs ch
      | Some n \<Rightarrow> Trie hs (ch(s \<mapsto> remove_path ss n)))"

fun lookup_path :: "string list \<Rightarrow> trie \<Rightarrow> MessageHandler list" where
  "lookup_path [] t = node_handlers t"
| "lookup_path (s # ss) t =
     (case node_children t s of None \<Rightarrow> [] | Some n \<Rightarrow> lookup_path ss n)
     @ (case node_children t ''+'' of None \<Rightarrow> [] | Some n \<Rightarrow> lookup_path ss n)
     @ (case node_children t ''#'' of None \<Rightarrow> [] | Some n \<Rightarrow> node_handlers n)"

definition AddHandler :: "trie \<Rightarrow> string \<Rightarrow> MessageHandler \<Rightarrow> trie" where
  "AddHandler t pattern h = add_path (split_slash pattern) h t"

definition RemoveHandler :: "trie \<Rightarrow> string \<Rightarrow> trie" where
  "RemoveHandler t pattern = remove_path (split_slash pattern) t"

definition Lookup :: "trie \<Rightarrow> string \<Rightarrow> MessageHandler list" where
  "Lookup t topic = lookup_path (split_slash topic) t"

section \<open>The Correlation Store\<close>

text \<open>
  Modelled from the spec: the type \<open>store\<close> with \<open>PutCallback\<close> and \<open>NotifyResponse\<close> is
  declared outside \<open>emitter.go\<close>. Following section 4.2 of the specification, the store
  maps the identifier of an outstanding request to a one-shot slot (a channel of capacity
  one). \<open>PutCallback\<close> registers a new, empty slot under the identifier and returns it, a
  slot still registered under that identifier being overwritten. \<open>NotifyResponse\<close> fills
  the slot registered under the identifier, removes it from the map and returns true; it
  returns false and changes nothing when no slot is registered. Slots are named by
  numbers; \<open>slots\<close> gives the values sent to each one.
\<close>

record store =
  callbacks :: "16 word \<rightharpoonup> nat"
  slots :: "nat \<Rightarrow> Response list"
  fresh :: nat

definition new_store :: store where
  "new_store = \<lparr>callbacks = Map.empty, slots = (\<lambda>_. []), fresh = 0\<rparr>"

definition PutCallback :: "store \<Rightarrow> 16 word \<Rightarrow> nat \<times> store" where
  "PutCallback s rid =
     (fresh s,
      s\<lparr>callbacks := (callbacks s)(rid \<mapsto> fresh s),
        slots := (slots s)(fresh s := []),
        fresh := Suc (fresh s)\<rparr>)"

definition NotifyResponse :: "store \<Rightarrow> 16 word \<Rightarrow> Response \<Rightarrow> bool \<times> store" where
  "NotifyResponse s rid response =
     (case callbacks s rid of
        None \<Rightarrow> (False, s)
      | Some ch \<Rightarrow>
          (True, s\<lparr>callbacks := (callbacks s)(rid := None),
                   slots := (slots s)(ch := slots s ch @ [response])\<rparr>))"

section \<open>The client and its dispatcher\<close>

text \<open>
  The fields of \<open>Client\<close> that the dispatcher and the calls read or write. The five
  user-defined handlers are \<open>None\<close> when nil. The timeout is a duration in nanoseconds.
\<close>

record Client =
  guid :: string
  store :: store
  handlers :: trie
  timeout :: nat
  message :: "MessageHandler option"
  connect :: "nat option"
  disconnect :: "nat option"
  presence :: "nat option"
  errors :: "nat option"

text \<open>
  What a function of the client does beyond changing the client: the calls of user
  callbacks, the lines it logs and the operations it issues on the transport.
\<close>

datatype request_body =
    req_nil
  | keygenRequest string string string int
  | linkRequest string string string bool bool

datatype effect =
    CallMessageHandler MessageHandler Message
  | CallPresenceHandler nat PresenceEvent
  | CallErrorHandler nat Error
  | LogPrintln string
  | ConnPublish string nat bool request_body
  | ConnSubscribe string nat
  | ConnUnsubscribe string

definition HasPrefix :: "string \<Rightarrow> string \<Rightarrow> bool" where
  "HasPrefix s p = prefix p s"

definition onResponse :: "codec \<Rightarrow> Client \<Rightarrow> Message \<Rightarrow> resp_kind \<Rightarrow> bool \<times> Client" where
  "onResponse cd c m k =
     (case (case unmarshal_Error cd (Payload m) of
              None \<Rightarrow> None
            | Some errResponse \<Rightarrow>
                if Error_Error errResponse \<noteq> [] then Some errResponse else None) of
        Some errResponse \<Rightarrow>
          (let (ok, st) = NotifyResponse (store c) (Error_RequestID errResponse) (RespError errResponse)
           in (ok, c\<lparr>store := st\<rparr>))
      | None \<Rightarrow>
          (case (case unmarshal_Response cd k (Payload m) of
                   None \<Rightarrow> None
                 | Some resp \<Rightarrow> if RequestID resp > 0 then Some resp else None) of
             Some resp \<Rightarrow>
               (let (ok, st) = NotifyResponse (store c) (RequestID resp) resp
                in (ok, c\<lparr>store := st\<rparr>))
           | None \<Rightarrow> (False, c)))"

definition onError :: "codec \<Rightarrow> Client \<Rightarrow> Message \<Rightarrow> Client \<times> effect list" where
  "onError cd c m =
     (case unmarshal_Error cd (Payload m) of
        None \<Rightarrow> (c, [])
      | Some resp \<Rightarrow>
          (let logged = (if errors c = None then [LogPrintln (Error_Error resp)] else [])
           in case errors c of
                None \<Rightarrow> (c, logged)
              | Some h \<Rightarrow>
                  (let (ok, st) = NotifyResponse (store c) (Error_RequestID resp) (RespError resp)
                   in (c\<lparr>store := st\<rparr>, logged @ (if \<not> ok then [CallErrorHandler h resp] else [])))))"

text \<open>The \<open>switch\<close> of \<open>onMessage\<close>: the first case whose condition holds is taken.\<close>

definition onMessage_switch :: "codec \<Rightarrow> Client \<Rightarrow> Message \<Rightarrow> Client \<times> effect list" where
  "onMessage_switch cd c m =
     (if presence c \<noteq> None \<and> HasPrefix (Topic m) ''emitter/presence/'' then
        (case (presence c, unmarshal_PresenceEvent cd (Payload m)) of
           (Some p, Some response) \<Rightarrow> (c, [CallPresenceHandler p response])
         | _ \<Rightarrow> (c, []))
      else if HasPrefix (Topic m) ''emitter/error/'' then onError cd c m
      else if HasPrefix (Topic m) ''emitter/keygen/'' then (snd (onResponse cd c m new_keyGenResponse), [])
      else if HasPrefix (Topic m) ''emitter/link/'' then (snd (onResponse cd c m new_Link), [])
      else if HasPrefix (Topic m) ''emitter/me/'' then (snd (onResponse cd c m new_meResponse), [])
      else (c, []))"

definition onMessage :: "codec \<Rightarrow> Client \<Rightarrow> Message \<Rightarrow> Client \<times> effect list" where
  "onMessage cd c m =
     (case (if HasPrefix (Topic m) ''emitter/'' then None else message c) of
        Some default_handler \<Rightarrow>
          (let hs = Lookup (handlers c) (Topic m)
           in (c, (if length hs = 0 then [CallMessageHandler default_handler m] else [])
                  @ map (\<lambda>h. CallMessageHandler h m) hs))
      | None \<Rightarrow> onMessage_switch cd c m)"

section \<open>Calls of the client\<close>

text \<open>
  A token of the transport, as the client reads it: the message identifier of a publish
  token, the delay after which the operation completes, counted from the moment the
  caller starts to wait (\<open>None\<close> when it never completes), and the error \<open>Error()\<close>
  returns (\<open>None\<close> for nil).
\<close>

record Token =
  MessageID :: "16 word"
  completes :: "nat option"
  token_Error :: "string option"

definition WaitTimeout :: "Token \<Rightarrow> nat \<Rightarrow> bool" where
  "WaitTimeout t d = (case completes t of None \<Rightarrow> False | Some n \<Rightarrow> n \<le> d)"

definition do :: "Client \<Rightarrow> Token \<Rightarrow> error option" where
  "do c t =
     (if \<not> WaitTimeout t (timeout c) then Some ErrTimeout
      else map_option TransportError (token_Error t))"

text \<open>
  The receive \<open><-c.store.PutCallback(...)\<close> of \<open>request\<close> blocks the caller until a value
  is sent to the slot. Meanwhile the transport delivers inbound messages to \<open>onMessage\<close>,
  one at a time: \<open>inbound n\<close> is the message delivered at step \<open>n\<close>, if there is one. The
  receive returns the first value of the slot and does not return (\<open>None\<close>) when the slot
  stays empty for ever.
\<close>

partial_function (option) await ::
  "codec \<Rightarrow> (nat \<Rightarrow> Message option) \<Rightarrow> nat \<Rightarrow> nat \<Rightarrow> Client \<Rightarrow> effect list
     \<Rightarrow> (Response \<times> Client \<times> effect list) option"
where
  "await cd inbound ch n c evs =
     (case slots (store c) ch of
        resp # _ \<Rightarrow> Some (resp, c, evs)
      | [] \<Rightarrow>
          (case inbound n of
             None \<Rightarrow> await cd inbound ch (Suc n) c evs
           | Some m \<Rightarrow>
               (case onMessage cd c m of
                  (c', evs') \<Rightarrow> await cd inbound ch (Suc n) c' (evs @ evs'))))"

text \<open>
  \<open>request\<close>: the token is the one \<open>c.conn.Publish\<close> returns. \<open>json.Marshal\<close> does not
  fail on the request types of this file, so the panic is not a branch of the model; the
  published payload is the request itself. The two results of the Go function, of which
  one is nil in every return statement, are a sum.
\<close>

definition request ::
  "codec \<Rightarrow> Client \<Rightarrow> Token \<Rightarrow> (nat \<Rightarrow> Message option) \<Rightarrow> string \<Rightarrow> request_body
     \<Rightarrow> ((error + Response) \<times> Client \<times> effect list) option"
where
  "request cd c token inbound operation req =
     (let (ch, st) = PutCallback (store c) (MessageID token)
      in case await cd inbound ch 0 (c\<lparr>store := st\<rparr>)
                [ConnPublish (''emitter/'' @ operation @ ''/'') 1 False req] of
           None \<Rightarrow> None
         | Some (resp, c', evs) \<Rightarrow>
             Some ((case do c' token of
                      Some err \<Rightarrow> Inl err
                    | None \<Rightarrow>
                        (case resp of
                           RespError e \<Rightarrow> Inl (ServiceError e)
                         | _ \<Rightarrow> Inr resp)),
                   c', evs))"

definition ID ::
  "codec \<Rightarrow> Client \<Rightarrow> Token \<Rightarrow> (nat \<Rightarrow> Message option) \<Rightarrow> (string \<times> Client \<times> effect list) option"
where
  "ID cd c token inbound =
     (if guid c \<noteq> [] then Some (guid c, c, [])
      else (case request cd c token inbound ''me'' req_nil of
              None \<Rightarrow> None
            | Some (r, c', evs) \<Rightarrow>
                (case r of
                   Inr (RespMe result) \<Rightarrow>
                     (let c'' = c'\<lparr>guid := meResponse_ID result\<rparr> in Some (guid c'', c'', evs))
                 | _ \<Rightarrow> Some (guid c', c', evs))))"

definition GenerateKey ::
  "codec \<Rightarrow> Client \<Rightarrow> Token \<Rightarrow> (nat \<Rightarrow> Message option) \<Rightarrow> string \<Rightarrow> string \<Rightarrow> string \<Rightarrow> int
     \<Rightarrow> ((string \<times> error option) \<times> Client \<times> effect list) option"
where
  "GenerateKey cd c token inbound key channel permissions ttl =
     (case request cd c token inbound ''keygen'' (keygenRequest key channel permissions ttl) of
        None \<Rightarrow> None
      | Some (r, c', evs) \<Rightarrow>
          Some ((case r of
                   Inl err \<Rightarrow> ([], Some err)
                 | Inr (RespKeyGen result) \<Rightarrow> (Key result, None)
                 | Inr _ \<Rightarrow> ([], Some ErrUnmarshal)),
                c', evs))"

definition CreatePrivateLink ::
  "codec \<Rightarrow> Client \<Rightarrow> Token \<Rightarrow> (nat \<Rightarrow> Message option) \<Rightarrow> string \<Rightarrow> string \<Rightarrow> string
     \<Rightarrow> MessageHandler option \<Rightarrow> Option list
     \<Rightarrow> ((Link option \<times> error option) \<times> Client \<times> effect list) option"
where
  "CreatePrivateLink cd c token inbound key channel name optionalHandler options =
     (case request cd c token inbound ''link''
             (linkRequest name key (formatTopic [] channel options) (optionalHandler \<noteq> None) True) of
        None \<Rightarrow> None
      | Some (r, c', evs) \<Rightarrow>
          Some (case r of
                  Inl err \<Rightarrow> ((None, Some err), c', evs)
                | Inr (RespLink result) \<Rightarrow>
                    ((Some result, None),
                     (case optionalHandler of
                        Some h \<Rightarrow> c'\<lparr>handlers := AddHandler (handlers c') (Channel result) h\<rparr>
                      | None \<Rightarrow> c'),
                     evs)
                | Inr _ \<Rightarrow> ((None, Some ErrUnmarshal), c', evs)))"

definition CreateLink ::
  "codec \<Rightarrow> Client \<Rightarrow> Token \<Rightarrow> (nat \<Rightarrow> Message option) \<Rightarrow> string \<Rightarrow> string \<Rightarrow> string
     \<Rightarrow> MessageHandler option \<Rightarrow> Option list
     \<Rightarrow> ((Link option \<times> error option) \<times> Client \<times> effect list) option"
where
  "CreateLink cd c token inbound key channel name optionalHandler options =
     (case request cd c token inbound ''link''
             (linkRequest name key (formatTopic [] channel options) (optionalHandler \<noteq> None) False) of
        None \<Rightarrow> None
      | Some (r, c', evs) \<Rightarrow>
          Some (case r of
                  Inl err \<Rightarrow> ((None, Some err), c', evs)
                | Inr (RespLink result) \<Rightarrow>
                    ((Some result, None),
                     (case optionalHandler of
                        Some h \<Rightarrow> c'\<lparr>handlers := AddHandler (handlers c') (Channel result) h\<rparr>
                      | None \<Rightarrow> c'),
                     evs)
                | Inr _ \<Rightarrow> ((None, Some ErrUnmarshal), c', evs)))"

text \<open>
  \<open>Subscribe\<close> and \<open>Unsubscribe\<close>: the token is the one the transport returns for the
  operation issued; the result is the error of \<open>c.do(token)\<close>, the client after the call
  and the operation issued.
\<close>

definition Subscribe ::
  "Client \<Rightarrow> Token \<Rightarrow> string \<Rightarrow> string \<Rightarrow> MessageHandler option \<Rightarrow> Option list
     \<Rightarrow> error option \<times> Client \<times> effect list"
where
  "Subscribe c token key channel optionalHandler options =
     (let c1 = (case optionalHandler of
                  Some h \<Rightarrow> c\<lparr>handlers := AddHandler (handlers c) channel h\<rparr>
                | None \<Rightarrow> c)
      in (do c1 token, c1, [ConnSubscribe (formatTopic key channel options) 0]))"

definition Unsubscribe ::
  "Client \<Rightarrow> Token \<Rightarrow> string \<Rightarrow> string \<Rightarrow> error option \<times> Client \<times> effect list"
where
  "Unsubscribe c token key channel =
     (let c1 = c\<lparr>handlers := RemoveHandler (handlers c) channel\<rparr>
      in (do c1 token, c1, [ConnUnsubscribe (formatTopic key channel [])]))"

text \<open>
  \<open>NewClient\<close> without options: no handler is set and the timeout is sixty seconds.
  \<open>OnMessage\<close> and \<open>OnError\<close> set the default-message handler and the error handler.
\<close>

definition NewClient :: Client where
  "NewClient =
     \<lparr>guid = [], store = new_store, handlers = newTrie, timeout = 60 * 1000000000,
      message = None, connect = None, disconnect = None, presence = None, errors = None\<rparr>"

definition OnMessage :: "Client \<Rightarrow> MessageHandler option \<Rightarrow> Client" where
  "OnMessage c handler = c\<lparr>message := handler\<rparr>"

definition OnError :: "Client \<Rightarrow> nat option \<Rightarrow> Client" where
  "OnError c handler = c\<lparr>errors := handler\<rparr>"

section \<open>Example inputs\<close>

text \<open>
  A decoder for the examples. A payload is a tag: \<open>err0\<close> and \<open>err5\<close> are error
  envelopes without a request identifier and with request identifier 5; \<open>key5\<close>, \<open>key0\<close>,
  \<open>link5\<close> and \<open>me5\<close> are successful replies, which also decode as an error envelope
  with an empty message, as a JSON object without a \<open>message\<close> field does.
\<close>

definition example_codec :: codec where
  "example_codec =
     \<lparr>unmarshal_Error = (\<lambda>p.
          if p = ''err0'' then Some (Error 0 500 ''boom'')
          else if p = ''err5'' then Some (Error 5 403 ''denied'')
          else if p = ''key5'' \<or> p = ''link5'' \<or> p = ''me5'' then Some (Error 5 200 [])
          else if p = ''key0'' then Some (Error 0 200 [])
          else None),
      unmarshal_PresenceEvent = (\<lambda>p. None),
      unmarshal_keyGenResponse = (\<lambda>p.
          if p = ''key5'' then Some (keyGenResponse 5 ''K'')
          else if p = ''key0'' then Some (keyGenResponse 0 ''K'')
          else None),
      unmarshal_Link = (\<lambda>p. if p = ''link5'' then Some (Link 5 ''L'' ''a/b/'') else None),
      unmarshal_meResponse = (\<lambda>p. if p = ''me5'' then Some (meResponse 5 ''client-1'') else None)\<rparr>"

text \<open>A client with a default-message handler and one subscription handler.\<close>

definition example_client :: Client where
  "example_client =
     (OnMessage NewClient (Some 7))\<lparr>handlers := AddHandler newTrie ''a/+/c'' 1\<rparr>"

text \<open>A client with an error handler and a request pending under the identifier given.\<close>

definition pending_client :: "16 word \<Rightarrow> Client" where
  "pending_client rid =
     (OnError NewClient (Some 9))\<lparr>store := snd (PutCallback new_store rid)\<rparr>"

text \<open>
  The client as the dispatcher leaves it after the first \<open>n\<close> steps of the inbound
  stream.
\<close>

primrec client_after :: "codec \<Rightarrow> (nat \<Rightarrow> Message option) \<Rightarrow> Client \<Rightarrow> nat \<Rightarrow> Client" where
  "client_after cd inbound c 0 = c"
| "client_after cd inbound c (Suc n) =
     (case inbound n of
        None \<Rightarrow> client_after cd inbound c n
      | Some m \<Rightarrow> fst (onMessage cd (client_after cd inbound c n) m))"

text \<open>Tokens and inbound streams of the examples.\<close>

definition ok_token :: "16 word \<Rightarrow> Token" where
  "ok_token rid = \<lparr>MessageID = rid, completes = Some 0, token_Error = None\<rparr>"

definition late_token :: "16 word \<Rightarrow> Token" where
  "late_token rid = \<lparr>MessageID = rid, completes = None, token_Error = None\<rparr>"

definition failed_token :: "16 word \<Rightarrow> Token" where
  "failed_token rid = \<lparr>MessageID = rid, completes = Some 0, token_Error = Some ''not connected''\<rparr>"

definition one_message :: "Message \<Rightarrow> nat \<Rightarrow> Message option" where
  "one_message m n = (if n = 0 then Some m else None)"

definition no_message :: "nat \<Rightarrow> Message option" where
  "no_message n = None"

definition me_reply :: Message where
  "me_reply = \<lparr>Topic = ''emitter/me/'', Payload = ''me5''\<rparr>"

definition keygen_reply :: Message where
  "keygen_reply = \<lparr>Topic = ''emitter/keygen/'', Payload = ''key5''\<rparr>"

definition link_reply :: Message where
  "link_reply = \<lparr>Topic = ''emitter/link/'', Payload = ''link5''\<rparr>"

definition junk_reply :: Message where
  "junk_reply = \<lparr>Topic = ''emitter/keygen/'', Payload = ''junk''\<rparr>"

text \<open>
  The new client after a request was registered under an identifier and resolved with
  a response.
\<close>

definition resolved_client :: "16 word \<Rightarrow> Response \<Rightarrow> Client" where
  "resolved_client rid r =
     NewClient\<lparr>store := snd (NotifyResponse (snd (PutCallback new_store rid)) rid r)\<rparr>"

section \<open>Patterns and topics as the specification describes them\<close>

text \<open>
  The specification's matching of a topic by a pattern, both given by their segments:
  a literal segment matches itself, the single-level wildcard \<open>+\<close> matches any one
  segment, and the multi-level wildcard \<open>#\<close>, as the last segment of the pattern, matches
  all the remaining segments of the topic.
\<close>

fun matches :: "string list \<Rightarrow> string list \<Rightarrow> bool" where
  "matches [] [] = True"
| "matches [] (t # ts) = False"
| "matches (p # ps) [] = False"
| "matches (p # ps) (t # ts) =
     ((p = t \<or> p = ''+'') \<and> matches ps ts \<or> p = ''#'' \<and> ps = [])"

text \<open>
  The specification's registry, as a table from pattern to the callbacks bound to it in
  registration order, and the registry operations as values, to speak about a registry
  reached by any sequence of operations.
\<close>

datatype registry_op = Add string MessageHandler | Remove string

fun spec_apply :: "(string \<Rightarrow> MessageHandler list) \<Rightarrow> registry_op \<Rightarrow> (string \<Rightarrow> MessageHandler list)" where
  "spec_apply reg (Add pattern h) = reg(pattern := reg pattern @ [h])"
| "spec_apply reg (Remove pattern) = reg(pattern := [])"

fun trie_apply :: "trie \<Rightarrow> registry_op \<Rightarrow> trie" where
  "trie_apply t (Add pattern h) = AddHandler t pattern h"
| "trie_apply t (Remove pattern) = RemoveHandler t pattern"

definition registered :: "registry_op list \<Rightarrow> string \<Rightarrow> MessageHandler list" where
  "registered ops = foldl spec_apply (\<lambda>_. []) ops"

definition registry_after :: "registry_op list \<Rightarrow> trie" where
  "registry_after ops = foldl trie_apply newTrie ops"

text \<open>The callbacks a trie holds at the node a sequence of segments leads to.\<close>

fun at_path :: "string list \<Rightarrow> trie \<Rightarrow> MessageHandler list" where
  "at_path [] t = node_handlers t"
| "at_path (s # ss) t = (case node_children t s of None \<Rightarrow> [] | Some n \<Rightarrow> at_path ss n)"

text \<open>\<open>strings.Join(segments, "/")\<close>, the inverse of \<open>split_slash\<close>.\<close>

fun join_slash :: "string list \<Rightarrow> string" where
  "join_slash [] = []"
| "join_slash [x] = x"
| "join_slash (x # y # ys) = x @ ''/'' @ join_slash (y # ys)"

section \<open>The query part of a topic is the ampersand join\<close>





section \<open>The Correlation Store fills a registered slot once\<close>

lemma NotifyResponse_delivered:
  "fst (NotifyResponse s rid r) = (callbacks s rid \<noteq> None)"
  by (simp add: NotifyResponse_def split: option.splits)

lemma NotifyResponse_not_found:
  "callbacks s rid = None \<Longrightarrow> NotifyResponse s rid r = (False, s)"
  by (simp add: NotifyResponse_def)

lemma NotifyResponse_found:
  "callbacks s rid = Some ch \<Longrightarrow>
   NotifyResponse s rid r =
     (True, s\<lparr>callbacks := (callbacks s)(rid := None), slots := (slots s)(ch := slots s ch @ [r])\<rparr>)"
  by (simp add: NotifyResponse_def)

lemma PutCallback_then_NotifyResponse:
  "fst (NotifyResponse (snd (PutCallback s rid)) rid r) = True
   \<and> slots (snd (NotifyResponse (snd (PutCallback s rid)) rid r)) (fst (PutCallback s rid)) = [r]
   \<and> fst (NotifyResponse (snd (NotifyResponse (snd (PutCallback s rid)) rid r)) rid r2) = False"
  by (simp add: NotifyResponse_def PutCallback_def)

section \<open>Classification of inbound messages by topic prefix\<close>

lemma HasPrefix_same_cases:
  "HasPrefix t p \<Longrightarrow> HasPrefix t q \<Longrightarrow> prefix p q \<or> prefix q p"
  unfolding HasPrefix_def by (rule prefix_same_cases)

lemma HasPrefix_emitter:
  "HasPrefix t (''emitter/'' @ q) \<Longrightarrow> HasPrefix t ''emitter/''"
  unfolding HasPrefix_def by (rule append_prefixD)

lemma not_reserved_prefixes:
  assumes "\<not> HasPrefix t ''emitter/''"
  shows "\<not> HasPrefix t ''emitter/presence/''" "\<not> HasPrefix t ''emitter/error/''"
    "\<not> HasPrefix t ''emitter/keygen/''" "\<not> HasPrefix t ''emitter/link/''"
    "\<not> HasPrefix t ''emitter/me/''"
  using assms HasPrefix_emitter [of t "''presence/''"] HasPrefix_emitter [of t "''error/''"]
    HasPrefix_emitter [of t "''keygen/''"] HasPrefix_emitter [of t "''link/''"]
    HasPrefix_emitter [of t "''me/''"]
  by auto

lemma error_prefix:
  assumes "HasPrefix t ''emitter/error/''"
  shows "HasPrefix t ''emitter/''" "\<not> HasPrefix t ''emitter/presence/''"
  using assms HasPrefix_emitter [of t "''error/''"]
    HasPrefix_same_cases [OF assms, of "''emitter/presence/''"]
  by auto

lemma keygen_prefix:
  assumes "HasPrefix t ''emitter/keygen/''"
  shows "HasPrefix t ''emitter/''" "\<not> HasPrefix t ''emitter/presence/''"
    "\<not> HasPrefix t ''emitter/error/''"
  using assms HasPrefix_emitter [of t "''keygen/''"]
    HasPrefix_same_cases [OF assms, of "''emitter/presence/''"]
    HasPrefix_same_cases [OF assms, of "''emitter/error/''"]
  by auto

lemma link_prefix:
  assumes "HasPrefix t ''emitter/link/''"
  shows "HasPrefix t ''emitter/''" "\<not> HasPrefix t ''emitter/presence/''"
    "\<not> HasPrefix t ''emitter/error/''" "\<not> HasPrefix t ''emitter/keygen/''"
  using assms HasPrefix_emitter [of t "''link/''"]
    HasPrefix_same_cases [OF assms, of "''emitter/presence/''"]
    HasPrefix_same_cases [OF assms, of "''emitter/error/''"]
    HasPrefix_same_cases [OF assms, of "''emitter/keygen/''"]
  by auto

lemma me_prefix:
  assumes "HasPrefix t ''emitter/me/''"
  shows "HasPrefix t ''emitter/''" "\<not> HasPrefix t ''emitter/presence/''"
    "\<not> HasPrefix t ''emitter/error/''" "\<not> HasPrefix t ''emitter/keygen/''"
    "\<not> HasPrefix t ''emitter/link/''"
  using assms HasPrefix_emitter [of t "''me/''"]
    HasPrefix_same_cases [OF assms, of "''emitter/presence/''"]
    HasPrefix_same_cases [OF assms, of "''emitter/error/''"]
    HasPrefix_same_cases [OF assms, of "''emitter/keygen/''"]
    HasPrefix_same_cases [OF assms, of "''emitter/link/''"]
  by auto

lemma onMessage_error_topic:
  assumes "HasPrefix (Topic m) ''emitter/error/''"
  shows "onMessage cd c m = onError cd c m"
  using assms error_prefix [OF assms]
  by (simp add: onMessage_def onMessage_switch_def)

lemma onMessage_reply_topic:
  assumes "HasPrefix (Topic m) ''emitter/keygen/'' \<and> k = new_keyGenResponse
           \<or> HasPrefix (Topic m) ''emitter/link/'' \<and> k = new_Link
           \<or> HasPrefix (Topic m) ''emitter/me/'' \<and> k = new_meResponse"
  shows "onMessage cd c m = (snd (onResponse cd c m k), [])"
  using assms keygen_prefix [of "Topic m"] link_prefix [of "Topic m"] me_prefix [of "Topic m"]
  by (auto simp add: onMessage_def onMessage_switch_def)

lemma example_lookup_abc: "Lookup (handlers example_client) ''a/b/c'' = [1]"
  by (simp add: example_client_def Lookup_def AddHandler_def newTrie_def)

lemma example_lookup_xy: "Lookup (handlers example_client) ''x/y'' = []"
  by (simp add: example_client_def Lookup_def AddHandler_def newTrie_def)

text \<open>
  Claim C1. For an inbound message whose topic does not begin with \<open>emitter/\<close>, when a
  default-message handler is registered, the dispatcher runs the Topic Registry lookup;
  the default handler is called exactly when the lookup returns no handler, and every
  handler the lookup returns is called, in the order of the lookup, whether or not the
  default handler ran. Nothing else happens and the client is unchanged.
\<close>

theorem onMessage_data_dispatch:
  assumes "\<not> HasPrefix (Topic m) ''emitter/''" and "message c = Some d"
  shows "onMessage cd c m =
           (c, (if Lookup (handlers c) (Topic m) = [] then [CallMessageHandler d m] else [])
               @ map (\<lambda>h. CallMessageHandler h m) (Lookup (handlers c) (Topic m)))"
  using assms by (simp add: onMessage_def Let_def)

theorem onMessage_data_dispatch_witness:
  "\<not> HasPrefix (Topic \<lparr>Topic = ''a/b/c'', Payload = ''hello''\<rparr>) ''emitter/''
   \<and> \<not> HasPrefix (Topic \<lparr>Topic = ''x/y'', Payload = ''hello''\<rparr>) ''emitter/''
   \<and> message example_client = Some 7
   \<and> onMessage example_codec example_client \<lparr>Topic = ''a/b/c'', Payload = ''hello''\<rparr>
       = (example_client, [CallMessageHandler 1 \<lparr>Topic = ''a/b/c'', Payload = ''hello''\<rparr>])
   \<and> onMessage example_codec example_client \<lparr>Topic = ''x/y'', Payload = ''hello''\<rparr>
       = (example_client, [CallMessageHandler 7 \<lparr>Topic = ''x/y'', Payload = ''hello''\<rparr>])"
proof -
  have p: "\<not> HasPrefix ''a/b/c'' ''emitter/''" "\<not> HasPrefix ''x/y'' ''emitter/''"
    by (simp_all add: HasPrefix_def)
  have m: "message example_client = Some 7"
    by (simp add: example_client_def OnMessage_def NewClient_def)
  show ?thesis
    using onMessage_data_dispatch [of "\<lparr>Topic = ''a/b/c'', Payload = ''hello''\<rparr>" example_client 7 example_codec]
      onMessage_data_dispatch [of "\<lparr>Topic = ''x/y'', Payload = ''hello''\<rparr>" example_client 7 example_codec]
      p m
    by (simp add: example_lookup_abc example_lookup_xy)
qed

text \<open>
  Claim C9. When no default-message handler is registered, an inbound message whose
  topic does not begin with \<open>emitter/\<close> calls no handler at all, even a subscription
  handler that matches its topic: it reaches the administrative classification, where no
  case applies, and is dropped with the client unchanged.
\<close>

theorem onMessage_without_default_handler:
  assumes "message c = None" and "\<not> HasPrefix (Topic m) ''emitter/''"
  shows "onMessage cd c m = (c, []) \<and> onMessage cd c m = onMessage_switch cd c m"
  using assms not_reserved_prefixes [OF assms(2)]
  by (simp add: onMessage_def onMessage_switch_def)

theorem onMessage_without_default_handler_witness:
  "message (example_client\<lparr>message := None\<rparr>) = None
   \<and> \<not> HasPrefix (Topic \<lparr>Topic = ''a/b/c'', Payload = ''hello''\<rparr>) ''emitter/''
   \<and> Lookup (handlers (example_client\<lparr>message := None\<rparr>)) ''a/b/c'' = [1]
   \<and> onMessage example_codec (example_client\<lparr>message := None\<rparr>)
        \<lparr>Topic = ''a/b/c'', Payload = ''hello''\<rparr>
       = (example_client\<lparr>message := None\<rparr>, [])"
proof -
  have p: "\<not> HasPrefix (Topic \<lparr>Topic = ''a/b/c'', Payload = ''hello''\<rparr>) ''emitter/''"
    by (simp add: HasPrefix_def)
  have m: "message (example_client\<lparr>message := None\<rparr>) = None"
    by simp
  have l: "Lookup (handlers (example_client\<lparr>message := None\<rparr>)) ''a/b/c'' = [1]"
    using example_lookup_abc by simp
  show ?thesis
    using onMessage_without_default_handler [OF m p, of example_codec] p m l
    by simp
qed



lemma pending_client_fields:
  "errors (pending_client rid) = Some 9"
  "message (pending_client rid) = None"
  "presence (pending_client rid) = None"
  "callbacks (store (pending_client rid)) = [rid \<mapsto> 0]"
  "slots (store (pending_client rid)) = (\<lambda>_. [])"
  by (simp_all add: pending_client_def OnError_def NewClient_def PutCallback_def new_store_def
      fun_eq_iff)

lemma example_codec_fields:
  "unmarshal_Error example_codec ''err0'' = Some (Error 0 500 ''boom'')"
  "unmarshal_Error example_codec ''err5'' = Some (Error 5 403 ''denied'')"
  "unmarshal_Error example_codec ''key5'' = Some (Error 5 200 [])"
  "unmarshal_Error example_codec ''link5'' = Some (Error 5 200 [])"
  "unmarshal_Error example_codec ''me5'' = Some (Error 5 200 [])"
  "unmarshal_Error example_codec ''key0'' = Some (Error 0 200 [])"
  "unmarshal_Error example_codec ''junk'' = None"
  "unmarshal_keyGenResponse example_codec ''key5'' = Some (keyGenResponse 5 ''K'')"
  "unmarshal_keyGenResponse example_codec ''key0'' = Some (keyGenResponse 0 ''K'')"
  "unmarshal_keyGenResponse example_codec ''junk'' = None"
  "unmarshal_Link example_codec ''link5'' = Some (Link 5 ''L'' ''a/b/'')"
  "unmarshal_meResponse example_codec ''me5'' = Some (meResponse 5 ''client-1'')"
  by (simp_all add: example_codec_def)

text \<open>
  The second half of claim C2 as it is stated fails: the dispatcher does not treat the
  request identifier 0 specially. When a request is pending under the identifier 0 (the
  identifier of a publish token to which the transport assigned none), an error envelope
  with request identifier 0 resolves that request and the error handler is not called.
\<close>

theorem onError_request_zero_counterexample:
  "HasPrefix (Topic \<lparr>Topic = ''emitter/error/'', Payload = ''err0''\<rparr>) ''emitter/error/''
   \<and> errors (pending_client 0) = Some 9
   \<and> unmarshal_Error example_codec ''err0'' = Some (Error 0 500 ''boom'')
   \<and> Error_RequestID (Error 0 500 ''boom'') = 0
   \<and> snd (onMessage example_codec (pending_client 0)
             \<lparr>Topic = ''emitter/error/'', Payload = ''err0''\<rparr>) = []
   \<and> slots (store (fst (onMessage example_codec (pending_client 0)
             \<lparr>Topic = ''emitter/error/'', Payload = ''err0''\<rparr>))) 0
       = [RespError (Error 0 500 ''boom'')]
   \<and> callbacks (store (fst (onMessage example_codec (pending_client 0)
             \<lparr>Topic = ''emitter/error/'', Payload = ''err0''\<rparr>))) 0 = None"
proof -
  have p: "HasPrefix (Topic \<lparr>Topic = ''emitter/error/'', Payload = ''err0''\<rparr>) ''emitter/error/''"
    by (simp add: HasPrefix_def)
  show ?thesis
    using p
    by (simp add: onMessage_error_topic [OF p] onError_def NotifyResponse_def
        pending_client_fields example_codec_fields)
qed

text \<open>
  Claim C2, amended. For an inbound message whose topic begins with \<open>emitter/error/\<close>:
  a payload that does not decode as an error envelope is dropped; with no error handler
  registered the error is logged and the Correlation Store is not notified; with an error
  handler registered the Correlation Store is notified, and the handler is called exactly
  when the notification returns false, the pending request being resolved with the error
  otherwise. In particular an envelope with request identifier 0 is delivered to a
  registered error handler and resolves no request, provided no request is pending under
  the identifier 0.
\<close>

theorem onMessage_error_envelope:
  assumes "HasPrefix (Topic m) ''emitter/error/''"
  shows "onMessage cd c m =
           (case unmarshal_Error cd (Payload m) of
              None \<Rightarrow> (c, [])
            | Some e \<Rightarrow>
                (case errors c of
                   None \<Rightarrow> (c, [LogPrintln (Error_Error e)])
                 | Some h \<Rightarrow>
                     (c\<lparr>store := snd (NotifyResponse (store c) (Error_RequestID e) (RespError e))\<rparr>,
                      if fst (NotifyResponse (store c) (Error_RequestID e) (RespError e))
                      then [] else [CallErrorHandler h e])))
         \<and> (\<forall>e h. unmarshal_Error cd (Payload m) = Some e \<and> Error_RequestID e = 0
                \<and> errors c = Some h \<and> callbacks (store c) 0 = None
              \<longrightarrow> onMessage cd c m = (c, [CallErrorHandler h e]))"
proof -
  have d: "onMessage cd c m = onError cd c m"
    by (rule onMessage_error_topic [OF assms])
  have general: "onError cd c m =
           (case unmarshal_Error cd (Payload m) of
              None \<Rightarrow> (c, [])
            | Some e \<Rightarrow>
                (case errors c of
                   None \<Rightarrow> (c, [LogPrintln (Error_Error e)])
                 | Some h \<Rightarrow>
                     (c\<lparr>store := snd (NotifyResponse (store c) (Error_RequestID e) (RespError e))\<rparr>,
                      if fst (NotifyResponse (store c) (Error_RequestID e) (RespError e))
                      then [] else [CallErrorHandler h e])))"
    by (auto simp add: onError_def Let_def split: option.splits prod.splits)
  have zero: "onError cd c m = (c, [CallErrorHandler h e])"
    if "unmarshal_Error cd (Payload m) = Some e" "Error_RequestID e = 0"
      "errors c = Some h" "callbacks (store c) 0 = None" for e h
    using that by (simp add: onError_def NotifyResponse_not_found)
  show ?thesis
    using d general zero by simp
qed

theorem onMessage_error_envelope_witness:
  "HasPrefix (Topic \<lparr>Topic = ''emitter/error/'', Payload = ''err0''\<rparr>) ''emitter/error/''
   \<and> unmarshal_Error example_codec (Payload \<lparr>Topic = ''emitter/error/'', Payload = ''err0''\<rparr>)
       = Some (Error 0 500 ''boom'')
   \<and> Error_RequestID (Error 0 500 ''boom'') = 0
   \<and> errors (pending_client 5) = Some 9
   \<and> callbacks (store (pending_client 5)) 0 = None
   \<and> onMessage example_codec (pending_client 5) \<lparr>Topic = ''emitter/error/'', Payload = ''err0''\<rparr>
       = (pending_client 5, [CallErrorHandler 9 (Error 0 500 ''boom'')])"
proof -
  have p: "HasPrefix (Topic \<lparr>Topic = ''emitter/error/'', Payload = ''err0''\<rparr>) ''emitter/error/''"
    by (simp add: HasPrefix_def)
  have h: "unmarshal_Error example_codec (Payload \<lparr>Topic = ''emitter/error/'', Payload = ''err0''\<rparr>)
             = Some (Error 0 500 ''boom'')
           \<and> Error_RequestID (Error 0 500 ''boom'') = 0
           \<and> errors (pending_client 5) = Some 9
           \<and> callbacks (store (pending_client 5)) 0 = None"
    by (simp add: pending_client_fields example_codec_fields)
  from onMessage_error_envelope [OF p, of example_codec "pending_client 5"]
  have "\<forall>e h. unmarshal_Error example_codec (Payload \<lparr>Topic = ''emitter/error/'', Payload = ''err0''\<rparr>) = Some e
            \<and> Error_RequestID e = 0 \<and> errors (pending_client 5) = Some h
            \<and> callbacks (store (pending_client 5)) 0 = None
          \<longrightarrow> onMessage example_codec (pending_client 5) \<lparr>Topic = ''emitter/error/'', Payload = ''err0''\<rparr>
                = (pending_client 5, [CallErrorHandler h e])"
    by (rule conjunct2)
  then have "onMessage example_codec (pending_client 5) \<lparr>Topic = ''emitter/error/'', Payload = ''err0''\<rparr>
                = (pending_client 5, [CallErrorHandler 9 (Error 0 500 ''boom'')])"
    using h by blast
  with p h show ?thesis by blast
qed







section \<open>The blocking receive of \<open>request\<close>\<close>

lemma await_unfilled:
  assumes never: "\<And>k. slots (store (client_after cd inbound c0 k)) ch = []"
  shows "await cd inbound ch n (client_after cd inbound c0 n) evs = None"
proof (rule ccontr)
  assume "await cd inbound ch n (client_after cd inbound c0 n) evs \<noteq> None"
  then obtain y where y: "await cd inbound ch n (client_after cd inbound c0 n) evs = Some y"
    by auto
  define P where "P = (\<lambda>cd' inbound' ch' n' c (evs' :: effect list)
      (y' :: Response \<times> Client \<times> effect list).
      \<not> (cd' = cd \<and> inbound' = inbound \<and> ch' = ch \<and> c = client_after cd inbound c0 n'))"
  have "P cd inbound ch n (client_after cd inbound c0 n) evs y"
  proof (rule await.raw_induct [where P = P, OF _ y])
    fix aw cd1 inb1 ch1 n1 c1 evs1 y1
    assume IH: "\<And>cd2 inb2 ch2 n2 c2 evs2 y2.
                  aw cd2 inb2 ch2 n2 c2 evs2 = Some y2 \<Longrightarrow> P cd2 inb2 ch2 n2 c2 evs2 y2"
      and body: "(case slots (store c1) ch1 of
                    [] \<Rightarrow> (case inb1 n1 of
                             None \<Rightarrow> aw cd1 inb1 ch1 (Suc n1) c1 evs1
                           | Some m \<Rightarrow>
                               (case onMessage cd1 c1 m of
                                  (c', evs') \<Rightarrow> aw cd1 inb1 ch1 (Suc n1) c' (evs1 @ evs')))
                  | resp # x \<Rightarrow> Some (resp, c1, evs1)) = Some y1"
    show "P cd1 inb1 ch1 n1 c1 evs1 y1"
      unfolding P_def
    proof
      assume eq: "cd1 = cd \<and> inb1 = inbound \<and> ch1 = ch \<and> c1 = client_after cd inbound c0 n1"
      then have empty: "slots (store c1) ch1 = []"
        using never [of n1] by simp
      show False
      proof (cases "inbound n1")
        case None
        with eq empty body have "aw cd inbound ch (Suc n1) c1 evs1 = Some y1"
          by simp
        moreover have "c1 = client_after cd inbound c0 (Suc n1)"
          using eq None by simp
        ultimately show False
          using IH [of cd inbound ch "Suc n1" c1 evs1 y1] by (simp add: P_def)
      next
        case (Some m)
        obtain c' evs' where om: "onMessage cd c1 m = (c', evs')"
          by (cases "onMessage cd c1 m")
        with eq empty body Some have "aw cd inbound ch (Suc n1) c' (evs1 @ evs') = Some y1"
          by simp
        moreover have "c' = client_after cd inbound c0 (Suc n1)"
          using eq Some om by simp
        ultimately show False
          using IH [of cd inbound ch "Suc n1" c' "evs1 @ evs'" y1] by (simp add: P_def)
      qed
    qed
  qed
  then show False by (simp add: P_def)
qed


lemma request_unfilled:
  assumes "\<And>k. slots (store (client_after cd inbound
                    (c\<lparr>store := snd (PutCallback (store c) (MessageID token))\<rparr>) k))
                 (fst (PutCallback (store c) (MessageID token))) = []"
  shows "request cd c token inbound operation req = None"
proof -
  have "await cd inbound (fst (PutCallback (store c) (MessageID token))) 0
          (client_after cd inbound (c\<lparr>store := snd (PutCallback (store c) (MessageID token))\<rparr>) 0)
          [ConnPublish (''emitter/'' @ operation @ ''/'') 1 False req] = None"
    by (rule await_unfilled) (rule assms)
  then show ?thesis
    by (simp add: request_def case_prod_beta)
qed

lemma client_after_no_message: "client_after cd no_message c k = c"
  by (induction k) (simp_all add: no_message_def)


lemma request_errors:
  assumes "request cd c token inbound operation req = Some (Inl e, c', evs)"
  shows "e = ErrTimeout \<and> \<not> WaitTimeout token (timeout c')
         \<or> (\<exists>x. e = TransportError x \<and> token_Error token = Some x)
         \<or> (\<exists>s. e = ServiceError s)"
  using assms
  by (auto simp add: request_def do_def case_prod_beta
      split: option.splits if_splits Response.splits)



lemma await_one_reply:
  assumes "slots (store c) ch = []" and "onMessage cd c m = (c', evs')"
    and "slots (store c') ch = r # rs"
  shows "await cd (one_message m) ch 0 c evs = Some (r, c', evs @ evs')"
proof -
  have "await cd (one_message m) ch 0 c evs = await cd (one_message m) ch (Suc 0) c' (evs @ evs')"
    by (subst await.simps) (simp add: assms one_message_def)
  also have "\<dots> = Some (r, c', evs @ evs')"
    by (subst await.simps) (simp add: assms)
  finally show ?thesis .
qed

lemma NewClient_fields:
  "guid NewClient = []" "store NewClient = new_store" "message NewClient = None"
  "presence NewClient = None" "errors NewClient = None" "timeout NewClient = 60000000000"
  "handlers NewClient = newTrie"
  by (simp_all add: NewClient_def)

lemma example_replies:
  "onMessage example_codec (NewClient\<lparr>store := snd (PutCallback new_store 5)\<rparr>) me_reply
     = (resolved_client 5 (RespMe (meResponse 5 ''client-1'')), [])"
  "onMessage example_codec (NewClient\<lparr>store := snd (PutCallback new_store 5)\<rparr>) keygen_reply
     = (resolved_client 5 (RespKeyGen (keyGenResponse 5 ''K'')), [])"
  "onMessage example_codec (NewClient\<lparr>store := snd (PutCallback new_store 5)\<rparr>) link_reply
     = (resolved_client 5 (RespLink (Link 5 ''L'' ''a/b/'')), [])"
proof -
  have me: "HasPrefix (Topic me_reply) ''emitter/keygen/'' \<and> new_meResponse = new_keyGenResponse
            \<or> HasPrefix (Topic me_reply) ''emitter/link/'' \<and> new_meResponse = new_Link
            \<or> HasPrefix (Topic me_reply) ''emitter/me/'' \<and> new_meResponse = new_meResponse"
    by (simp add: me_reply_def HasPrefix_def)
  have kg: "HasPrefix (Topic keygen_reply) ''emitter/keygen/'' \<and> new_keyGenResponse = new_keyGenResponse
            \<or> HasPrefix (Topic keygen_reply) ''emitter/link/'' \<and> new_keyGenResponse = new_Link
            \<or> HasPrefix (Topic keygen_reply) ''emitter/me/'' \<and> new_keyGenResponse = new_meResponse"
    by (simp add: keygen_reply_def HasPrefix_def)
  have ln: "HasPrefix (Topic link_reply) ''emitter/keygen/'' \<and> new_Link = new_keyGenResponse
            \<or> HasPrefix (Topic link_reply) ''emitter/link/'' \<and> new_Link = new_Link
            \<or> HasPrefix (Topic link_reply) ''emitter/me/'' \<and> new_Link = new_meResponse"
    by (simp add: link_reply_def HasPrefix_def)
  show "onMessage example_codec (NewClient\<lparr>store := snd (PutCallback new_store 5)\<rparr>) me_reply
     = (resolved_client 5 (RespMe (meResponse 5 ''client-1'')), [])"
    by (subst onMessage_reply_topic [OF me]) (simp add: onResponse_def unmarshal_Response_def
        resolved_client_def example_codec_fields me_reply_def case_prod_beta)
  show "onMessage example_codec (NewClient\<lparr>store := snd (PutCallback new_store 5)\<rparr>) keygen_reply
     = (resolved_client 5 (RespKeyGen (keyGenResponse 5 ''K'')), [])"
    by (subst onMessage_reply_topic [OF kg]) (simp add: onResponse_def unmarshal_Response_def
        resolved_client_def example_codec_fields keygen_reply_def case_prod_beta)
  show "onMessage example_codec (NewClient\<lparr>store := snd (PutCallback new_store 5)\<rparr>) link_reply
     = (resolved_client 5 (RespLink (Link 5 ''L'' ''a/b/'')), [])"
    by (subst onMessage_reply_topic [OF ln]) (simp add: onResponse_def unmarshal_Response_def
        resolved_client_def example_codec_fields link_reply_def case_prod_beta)
qed

lemma resolved_client_fields:
  "slots (store (resolved_client rid r)) 0 = [r]"
  "timeout (resolved_client rid r) = 60000000000"
  "guid (resolved_client rid r) = []"
  "handlers (resolved_client rid r) = newTrie"
  by (simp_all add: resolved_client_def NewClient_def NotifyResponse_def PutCallback_def
      new_store_def)

lemma example_request:
  assumes "onMessage example_codec (NewClient\<lparr>store := snd (PutCallback new_store 5)\<rparr>) m
             = (resolved_client 5 r, [])"
  shows "request example_codec NewClient (ok_token 5) (one_message m) operation req =
           Some ((case r of RespError e \<Rightarrow> Inl (ServiceError e) | _ \<Rightarrow> Inr r),
                 resolved_client 5 r,
                 [ConnPublish (''emitter/'' @ operation @ ''/'') 1 False req])"
proof -
  have pc: "PutCallback (store NewClient) (MessageID (ok_token 5)) = (0, snd (PutCallback new_store 5))"
    by (simp add: PutCallback_def NewClient_def new_store_def ok_token_def)
  have empty: "slots (store (NewClient\<lparr>store := snd (PutCallback new_store 5)\<rparr>)) 0 = []"
    by (simp add: PutCallback_def new_store_def)
  have aw: "await example_codec (one_message m) 0 0 (NewClient\<lparr>store := snd (PutCallback new_store 5)\<rparr>)
              [ConnPublish (''emitter/'' @ operation @ ''/'') 1 False req]
            = Some (r, resolved_client 5 r, [ConnPublish (''emitter/'' @ operation @ ''/'') 1 False req] @ [])"
    by (rule await_one_reply [OF empty assms]) (simp add: resolved_client_fields)
  have d: "do (resolved_client 5 r) (ok_token 5) = None"
    by (simp add: do_def WaitTimeout_def ok_token_def resolved_client_fields)
  show ?thesis
    using aw by (simp add: request_def pc d)
qed



lemma PutCallback_slot_empty:
  "slots (snd (PutCallback s rid)) (fst (PutCallback s rid)) = []"
  by (simp add: PutCallback_def)

lemma request_no_message: "request cd c token no_message operation req = None"
  by (rule request_unfilled) (simp add: client_after_no_message PutCallback_slot_empty)

text \<open>
  Claim C4 fails on the code: \<open>request\<close> receives from the slot before it waits for the
  token, and the receive has no timeout. When no inbound message is ever delivered, so
  that the slot is never filled, \<open>request\<close> does not return, whatever the client, its
  timeout and the token are, and neither do the calls built on it; the slot stays
  registered, so that a notification for the identifier would still return true.
\<close>

theorem request_unfilled_never_returns:
  "request cd c token no_message operation req = None
   \<and> GenerateKey cd c token no_message key channel permissions ttl = None
   \<and> CreateLink cd c token no_message key channel name optionalHandler options = None
   \<and> CreatePrivateLink cd c token no_message key channel name optionalHandler options = None
   \<and> ID cd (c\<lparr>guid := []\<rparr>) token no_message = None
   \<and> fst (NotifyResponse (snd (PutCallback (store c) (MessageID token))) (MessageID token) r) = True"
  by (simp add: request_no_message GenerateKey_def CreateLink_def CreatePrivateLink_def ID_def
      NotifyResponse_def PutCallback_def)





section \<open>Results of the administrative calls\<close>

lemma GenerateKey_results:
  assumes "GenerateKey cd c token inbound key channel permissions ttl = Some ((k, err), c', evs)"
  shows "err = None
           \<and> (\<exists>r. k = Key r
                \<and> request cd c token inbound ''keygen'' (keygenRequest key channel permissions ttl)
                    = Some (Inr (RespKeyGen r), c', evs))
         \<or> k = []
           \<and> (err = Some ErrTimeout
              \<or> (\<exists>x. err = Some (TransportError x))
              \<or> (\<exists>s. err = Some (ServiceError s))
              \<or> err = Some ErrUnmarshal
                \<and> (\<exists>r. request cd c token inbound ''keygen''
                            (keygenRequest key channel permissions ttl) = Some (Inr r, c', evs)
                      \<and> (case r of RespKeyGen _ \<Rightarrow> False | _ \<Rightarrow> True)))"
proof (cases "request cd c token inbound ''keygen'' (keygenRequest key channel permissions ttl)")
  case None
  with assms show ?thesis by (simp add: GenerateKey_def)
next
  case (Some a)
  obtain r c1 evs1 where a: "a = (r, c1, evs1)" by (cases a)
  show ?thesis
  proof (cases r)
    case (Inl e)
    with assms Some a have "k = []" "err = Some e" "c1 = c'" "evs1 = evs"
      by (simp_all add: GenerateKey_def)
    with request_errors [of cd c token inbound "''keygen''" _ e c' evs] Some a Inl
    show ?thesis by auto
  next
    case (Inr resp)
    with assms Some a show ?thesis
      by (cases resp) (auto simp add: GenerateKey_def)
  qed
qed

lemma CreateLink_results:
  assumes "CreateLink cd c token inbound key channel name h options = Some ((l, err), c', evs)"
  shows "err = None
           \<and> (\<exists>r c1. l = Some r
                \<and> request cd c token inbound ''link''
                     (linkRequest name key (formatTopic [] channel options) (h \<noteq> None) False)
                    = Some (Inr (RespLink r), c1, evs))
         \<or> l = None
           \<and> (err = Some ErrTimeout
              \<or> (\<exists>x. err = Some (TransportError x))
              \<or> (\<exists>s. err = Some (ServiceError s))
              \<or> err = Some ErrUnmarshal
                \<and> (\<exists>r. request cd c token inbound ''link''
                            (linkRequest name key (formatTopic [] channel options) (h \<noteq> None) False)
                          = Some (Inr r, c', evs)
                      \<and> (case r of RespLink _ \<Rightarrow> False | _ \<Rightarrow> True)))"
proof (cases "request cd c token inbound ''link''
                (linkRequest name key (formatTopic [] channel options) (h \<noteq> None) False)")
  case None
  with assms show ?thesis by (simp add: CreateLink_def)
next
  case (Some a)
  obtain r c1 evs1 where a: "a = (r, c1, evs1)" by (cases a)
  show ?thesis
  proof (cases r)
    case (Inl e)
    with assms Some a have "l = None" "err = Some e" "c1 = c'" "evs1 = evs"
      by (simp_all add: CreateLink_def)
    with request_errors [of cd c token inbound "''link''" _ e c' evs] Some a Inl
    show ?thesis by auto
  next
    case (Inr resp)
    with assms Some a show ?thesis
      by (cases resp) (auto simp add: CreateLink_def)
  qed
qed

lemma CreatePrivateLink_results:
  assumes "CreatePrivateLink cd c token inbound key channel name h options = Some ((l, err), c', evs)"
  shows "err = None
           \<and> (\<exists>r c1. l = Some r
                \<and> request cd c token inbound ''link''
                     (linkRequest name key (formatTopic [] channel options) (h \<noteq> None) True)
                    = Some (Inr (RespLink r), c1, evs))
         \<or> l = None
           \<and> (err = Some ErrTimeout
              \<or> (\<exists>x. err = Some (TransportError x))
              \<or> (\<exists>s. err = Some (ServiceError s))
              \<or> err = Some ErrUnmarshal
                \<and> (\<exists>r. request cd c token inbound ''link''
                            (linkRequest name key (formatTopic [] channel options) (h \<noteq> None) True)
                          = Some (Inr r, c', evs)
                      \<and> (case r of RespLink _ \<Rightarrow> False | _ \<Rightarrow> True)))"
proof (cases "request cd c token inbound ''link''
                (linkRequest name key (formatTopic [] channel options) (h \<noteq> None) True)")
  case None
  with assms show ?thesis by (simp add: CreatePrivateLink_def)
next
  case (Some a)
  obtain r c1 evs1 where a: "a = (r, c1, evs1)" by (cases a)
  show ?thesis
  proof (cases r)
    case (Inl e)
    with assms Some a have "l = None" "err = Some e" "c1 = c'" "evs1 = evs"
      by (simp_all add: CreatePrivateLink_def)
    with request_errors [of cd c token inbound "''link''" _ e c' evs] Some a Inl
    show ?thesis by auto
  next
    case (Inr resp)
    with assms Some a show ?thesis
      by (cases resp) (auto simp add: CreatePrivateLink_def)
  qed
qed

lemma undecodable_reply_dropped:
  assumes "HasPrefix (Topic m) ''emitter/keygen/'' \<and> kd = new_keyGenResponse
           \<or> HasPrefix (Topic m) ''emitter/link/'' \<and> kd = new_Link
           \<or> HasPrefix (Topic m) ''emitter/me/'' \<and> kd = new_meResponse"
    and "unmarshal_Error cd (Payload m) = None" and "unmarshal_Response cd kd (Payload m) = None"
  shows "onMessage cd c m = (c, [])"
  using assms(2,3) by (simp add: onMessage_reply_topic [OF assms(1)] onResponse_def)



lemma example_GenerateKey:
  "GenerateKey example_codec NewClient (ok_token 5) (one_message keygen_reply) ''k'' ''ch'' ''rw'' 0
     = Some ((''K'', None), resolved_client 5 (RespKeyGen (keyGenResponse 5 ''K'')),
             [ConnPublish ''emitter/keygen/'' 1 False (keygenRequest ''k'' ''ch'' ''rw'' 0)])"
  using example_request [OF example_replies(2), of "''keygen''" "keygenRequest ''k'' ''ch'' ''rw'' 0"]
  by (simp add: GenerateKey_def)

lemma example_CreateLink:
  "CreateLink example_codec NewClient (ok_token 5) (one_message link_reply) ''k'' ''ch'' ''L'' (Some 3) []
     = Some ((Some (Link 5 ''L'' ''a/b/''), None),
             (resolved_client 5 (RespLink (Link 5 ''L'' ''a/b/'')))
               \<lparr>handlers := AddHandler newTrie ''a/b/'' 3\<rparr>,
             [ConnPublish ''emitter/link/'' 1 False
                (linkRequest ''L'' ''k'' (formatTopic [] ''ch'' []) True False)])"
  using example_request [OF example_replies(3), of "''link''"
      "linkRequest ''L'' ''k'' (formatTopic [] ''ch'' []) True False"]
  by (simp add: CreateLink_def resolved_client_fields)

lemma example_CreatePrivateLink:
  "CreatePrivateLink example_codec NewClient (ok_token 5) (one_message link_reply) ''k'' ''ch'' ''L'' None []
     = Some ((Some (Link 5 ''L'' ''a/b/''), None),
             resolved_client 5 (RespLink (Link 5 ''L'' ''a/b/'')),
             [ConnPublish ''emitter/link/'' 1 False
                (linkRequest ''L'' ''k'' (formatTopic [] ''ch'' []) False True)])"
  using example_request [OF example_replies(3), of "''link''"
      "linkRequest ''L'' ''k'' (formatTopic [] ''ch'' []) False True"]
  by (simp add: CreatePrivateLink_def)

text \<open>
  Claim C5 as it is stated fails: a blocking call can return an error that is neither a
  timeout, nor a transport error, nor an error reported by the service. When the request
  of \<open>GenerateKey\<close> is resolved with a response of another type (here a link reply that
  carries the request identifier of the pending key generation), the call returns
  \<open>ErrUnmarshal\<close>.
\<close>

theorem GenerateKey_ErrUnmarshal_counterexample:
  "GenerateKey example_codec NewClient (ok_token 5) (one_message link_reply) ''k'' ''ch'' ''rw'' 0
     = Some (([], Some ErrUnmarshal), resolved_client 5 (RespLink (Link 5 ''L'' ''a/b/'')),
             [ConnPublish ''emitter/keygen/'' 1 False (keygenRequest ''k'' ''ch'' ''rw'' 0)])
   \<and> ErrUnmarshal \<noteq> ErrTimeout
   \<and> ErrUnmarshal \<noteq> TransportError ''not connected''
   \<and> ErrUnmarshal \<noteq> ServiceError (Error 5 403 ''denied'')"
  using example_request [OF example_replies(3), of "''keygen''" "keygenRequest ''k'' ''ch'' ''rw'' 0"]
  by (simp add: GenerateKey_def)

text \<open>
  Claim C5, amended. A blocking administrative call (\<open>GenerateKey\<close>, \<open>CreateLink\<close>,
  \<open>CreatePrivateLink\<close>) that returns, returns either a result of the expected type, taken
  from the response that resolved its request, and no error, or an empty result and an
  error that is a timeout, a transport error, an error reported by the service, or
  \<open>ErrUnmarshal\<close> when the request was resolved with a response of another type. It never
  returns a result together with an error. A reply that decodes neither as an error
  envelope nor as the response type of its topic is not surfaced to any caller: the
  dispatcher drops it and the client is unchanged.
\<close>

theorem admin_call_result_or_error:
  "(GenerateKey cd c token inbound key channel permissions ttl = Some ((k, err), c', evs)
    \<longrightarrow> err = None
           \<and> (\<exists>r. k = Key r
                \<and> request cd c token inbound ''keygen'' (keygenRequest key channel permissions ttl)
                    = Some (Inr (RespKeyGen r), c', evs))
         \<or> k = []
           \<and> (err = Some ErrTimeout
              \<or> (\<exists>x. err = Some (TransportError x))
              \<or> (\<exists>s. err = Some (ServiceError s))
              \<or> err = Some ErrUnmarshal
                \<and> (\<exists>r. request cd c token inbound ''keygen''
                            (keygenRequest key channel permissions ttl) = Some (Inr r, c', evs)
                      \<and> (case r of RespKeyGen _ \<Rightarrow> False | _ \<Rightarrow> True))))
   \<and> (CreateLink cd c token inbound key channel name h options = Some ((l, lerr), lc, levs)
    \<longrightarrow> lerr = None
           \<and> (\<exists>r c1. l = Some r
                \<and> request cd c token inbound ''link''
                     (linkRequest name key (formatTopic [] channel options) (h \<noteq> None) False)
                    = Some (Inr (RespLink r), c1, levs))
         \<or> l = None
           \<and> (lerr = Some ErrTimeout
              \<or> (\<exists>x. lerr = Some (TransportError x))
              \<or> (\<exists>s. lerr = Some (ServiceError s))
              \<or> lerr = Some ErrUnmarshal
                \<and> (\<exists>r. request cd c token inbound ''link''
                            (linkRequest name key (formatTopic [] channel options) (h \<noteq> None) False)
                          = Some (Inr r, lc, levs)
                      \<and> (case r of RespLink _ \<Rightarrow> False | _ \<Rightarrow> True))))
   \<and> (CreatePrivateLink cd c token inbound key channel name h options = Some ((p, perr), pc, pevs)
    \<longrightarrow> perr = None
           \<and> (\<exists>r c1. p = Some r
                \<and> request cd c token inbound ''link''
                     (linkRequest name key (formatTopic [] channel options) (h \<noteq> None) True)
                    = Some (Inr (RespLink r), c1, pevs))
         \<or> p = None
           \<and> (perr = Some ErrTimeout
              \<or> (\<exists>x. perr = Some (TransportError x))
              \<or> (\<exists>s. perr = Some (ServiceError s))
              \<or> perr = Some ErrUnmarshal
                \<and> (\<exists>r. request cd c token inbound ''link''
                            (linkRequest name key (formatTopic [] channel options) (h \<noteq> None) True)
                          = Some (Inr r, pc, pevs)
                      \<and> (case r of RespLink _ \<Rightarrow> False | _ \<Rightarrow> True))))
   \<and> ((HasPrefix (Topic m) ''emitter/keygen/'' \<and> kd = new_keyGenResponse
           \<or> HasPrefix (Topic m) ''emitter/link/'' \<and> kd = new_Link
           \<or> HasPrefix (Topic m) ''emitter/me/'' \<and> kd = new_meResponse)
        \<and> unmarshal_Error cd (Payload m) = None \<and> unmarshal_Response cd kd (Payload m) = None
    \<longrightarrow> onMessage cd dc m = (dc, []))"
  using GenerateKey_results [of cd c token inbound key channel permissions ttl k err c' evs]
    CreateLink_results [of cd c token inbound key channel name h options l lerr lc levs]
    CreatePrivateLink_results [of cd c token inbound key channel name h options p perr pc pevs]
    undecodable_reply_dropped [of m kd cd dc]
  by blast



theorem admin_call_result_or_error_witness:
  "GenerateKey example_codec NewClient (ok_token 5) (one_message keygen_reply) ''k'' ''ch'' ''rw'' 0
     = Some ((''K'', None), resolved_client 5 (RespKeyGen (keyGenResponse 5 ''K'')),
             [ConnPublish ''emitter/keygen/'' 1 False (keygenRequest ''k'' ''ch'' ''rw'' 0)])
   \<and> (\<exists>r. ''K'' = Key r
         \<and> request example_codec NewClient (ok_token 5) (one_message keygen_reply) ''keygen''
              (keygenRequest ''k'' ''ch'' ''rw'' 0)
             = Some (Inr (RespKeyGen r), resolved_client 5 (RespKeyGen (keyGenResponse 5 ''K'')),
                     [ConnPublish ''emitter/keygen/'' 1 False (keygenRequest ''k'' ''ch'' ''rw'' 0)]))
   \<and> CreateLink example_codec NewClient (ok_token 5) (one_message link_reply) ''k'' ''ch'' ''L'' (Some 3) []
     = Some ((Some (Link 5 ''L'' ''a/b/''), None),
             (resolved_client 5 (RespLink (Link 5 ''L'' ''a/b/'')))
               \<lparr>handlers := AddHandler newTrie ''a/b/'' 3\<rparr>,
             [ConnPublish ''emitter/link/'' 1 False
                (linkRequest ''L'' ''k'' (formatTopic [] ''ch'' []) True False)])
   \<and> (\<exists>r c1. Some (Link 5 ''L'' ''a/b/'') = Some r
         \<and> request example_codec NewClient (ok_token 5) (one_message link_reply) ''link''
              (linkRequest ''L'' ''k'' (formatTopic [] ''ch'' []) (Some (3::nat) \<noteq> None) False)
             = Some (Inr (RespLink r), c1,
                     [ConnPublish ''emitter/link/'' 1 False
                        (linkRequest ''L'' ''k'' (formatTopic [] ''ch'' []) True False)]))
   \<and> CreatePrivateLink example_codec NewClient (ok_token 5) (one_message link_reply) ''k'' ''ch'' ''L'' None []
     = Some ((Some (Link 5 ''L'' ''a/b/''), None),
             resolved_client 5 (RespLink (Link 5 ''L'' ''a/b/'')),
             [ConnPublish ''emitter/link/'' 1 False
                (linkRequest ''L'' ''k'' (formatTopic [] ''ch'' []) False True)])
   \<and> (\<exists>r c1. Some (Link 5 ''L'' ''a/b/'') = Some r
         \<and> request example_codec NewClient (ok_token 5) (one_message link_reply) ''link''
              (linkRequest ''L'' ''k'' (formatTopic [] ''ch'' []) ((None :: nat option) \<noteq> None) True)
             = Some (Inr (RespLink r), c1,
                     [ConnPublish ''emitter/link/'' 1 False
                        (linkRequest ''L'' ''k'' (formatTopic [] ''ch'' []) False True)]))
   \<and> HasPrefix (Topic junk_reply) ''emitter/keygen/''
   \<and> unmarshal_Error example_codec (Payload junk_reply) = None
   \<and> unmarshal_Response example_codec new_keyGenResponse (Payload junk_reply) = None
   \<and> onMessage example_codec NewClient junk_reply = (NewClient, [])"
proof -
  note gk = example_GenerateKey
  note cl = example_CreateLink
  note pl = example_CreatePrivateLink
  have junk: "HasPrefix (Topic junk_reply) ''emitter/keygen/''"
    "unmarshal_Error example_codec (Payload junk_reply) = None"
    "unmarshal_Response example_codec new_keyGenResponse (Payload junk_reply) = None"
    by (simp_all add: junk_reply_def HasPrefix_def unmarshal_Response_def example_codec_fields)
  have 1: "\<exists>r. ''K'' = Key r
         \<and> request example_codec NewClient (ok_token 5) (one_message keygen_reply) ''keygen''
              (keygenRequest ''k'' ''ch'' ''rw'' 0)
             = Some (Inr (RespKeyGen r), resolved_client 5 (RespKeyGen (keyGenResponse 5 ''K'')),
                     [ConnPublish ''emitter/keygen/'' 1 False (keygenRequest ''k'' ''ch'' ''rw'' 0)])"
    using gk admin_call_result_or_error [where cd = example_codec and c = NewClient
        and token = "ok_token 5" and inbound = "one_message keygen_reply" and key = "''k''"
        and channel = "''ch''" and permissions = "''rw''" and ttl = 0 and k = "''K''"
        and err = None and c' = "resolved_client 5 (RespKeyGen (keyGenResponse 5 ''K''))"
        and evs = "[ConnPublish ''emitter/keygen/'' 1 False (keygenRequest ''k'' ''ch'' ''rw'' 0)]"]
    by simp
  have 2: "\<exists>r c1. Some (Link 5 ''L'' ''a/b/'') = Some r
         \<and> request example_codec NewClient (ok_token 5) (one_message link_reply) ''link''
              (linkRequest ''L'' ''k'' (formatTopic [] ''ch'' []) (Some (3::nat) \<noteq> None) False)
             = Some (Inr (RespLink r), c1,
                     [ConnPublish ''emitter/link/'' 1 False
                        (linkRequest ''L'' ''k'' (formatTopic [] ''ch'' []) True False)])"
    using cl admin_call_result_or_error [where cd = example_codec and c = NewClient
        and token = "ok_token 5" and inbound = "one_message link_reply" and key = "''k''"
        and channel = "''ch''" and name = "''L''" and h = "Some 3" and options = "[]"
        and l = "Some (Link 5 ''L'' ''a/b/'')" and lerr = None
        and lc = "(resolved_client 5 (RespLink (Link 5 ''L'' ''a/b/'')))\<lparr>handlers := AddHandler newTrie ''a/b/'' 3\<rparr>"
        and levs = "[ConnPublish ''emitter/link/'' 1 False
            (linkRequest ''L'' ''k'' (formatTopic [] ''ch'' []) True False)]"]
    by simp
  have 3: "\<exists>r c1. Some (Link 5 ''L'' ''a/b/'') = Some r
         \<and> request example_codec NewClient (ok_token 5) (one_message link_reply) ''link''
              (linkRequest ''L'' ''k'' (formatTopic [] ''ch'' []) ((None :: nat option) \<noteq> None) True)
             = Some (Inr (RespLink r), c1,
                     [ConnPublish ''emitter/link/'' 1 False
                        (linkRequest ''L'' ''k'' (formatTopic [] ''ch'' []) False True)])"
    using pl admin_call_result_or_error [where cd = example_codec and c = NewClient
        and token = "ok_token 5" and inbound = "one_message link_reply" and key = "''k''"
        and channel = "''ch''" and name = "''L''" and h = None and options = "[]"
        and p = "Some (Link 5 ''L'' ''a/b/'')" and perr = None
        and pc = "resolved_client 5 (RespLink (Link 5 ''L'' ''a/b/''))"
        and pevs = "[ConnPublish ''emitter/link/'' 1 False
            (linkRequest ''L'' ''k'' (formatTopic [] ''ch'' []) False True)]"]
    by simp
  have 4: "onMessage example_codec NewClient junk_reply = (NewClient, [])"
    using junk admin_call_result_or_error [where cd = example_codec and m = junk_reply
        and kd = new_keyGenResponse and dc = NewClient]
    by simp
  show ?thesis
    using gk cl pl junk 1 2 3 4 by simp
qed



section \<open>The Topic Registry returns the callbacks of the matching patterns\<close>

lemma split_slash_not_Nil: "split_slash s \<noteq> []"
  by (induction s) (auto split: list.splits)

lemma join_split_slash: "join_slash (split_slash s) = s"
proof (induction s)
  case Nil
  show ?case by simp
next
  case (Cons c cs)
  obtain w ws where sp: "split_slash cs = w # ws"
    using split_slash_not_Nil [of cs] by (cases "split_slash cs") auto
  show ?case
  proof (cases "c = CHR ''/''")
    case True
    with Cons sp show ?thesis by simp
  next
    case False
    with Cons sp show ?thesis by (cases ws) auto
  qed
qed

lemma at_path_empty: "at_path P (Trie [] Map.empty) = []"
  by (cases P) simp_all

lemma at_path_add_path:
  "at_path P (add_path Q h t) = (if P = Q then at_path P t @ [h] else at_path P t)"
proof (induction Q arbitrary: P t)
  case Nil
  show ?case by (cases t; cases P) auto
next
  case (Cons q qs)
  obtain hs ch where t: "t = Trie hs ch" by (cases t)
  show ?case
  proof (cases P)
    case Nil
    with t show ?thesis by simp
  next
    case (Cons p ps)
    show ?thesis
    proof (cases "p = q")
      case True
      with Cons t Cons.IH [of ps] show ?thesis
        by (cases "ch q") (auto simp add: at_path_empty)
    next
      case False
      with Cons t show ?thesis by simp
    qed
  qed
qed

lemma at_path_remove_path:
  "at_path P (remove_path Q t) = (if P = Q then [] else at_path P t)"
proof (induction Q arbitrary: P t)
  case Nil
  show ?case by (cases t; cases P) auto
next
  case (Cons q qs)
  obtain hs ch where t: "t = Trie hs ch" by (cases t)
  show ?case
  proof (cases P)
    case Nil
    with t show ?thesis by (cases "ch q") auto
  next
    case (Cons p ps)
    show ?thesis
    proof (cases "p = q")
      case True
      with Cons t Cons.IH [of ps] show ?thesis
        by (cases "ch q") auto
    next
      case False
      with Cons t show ?thesis by (cases "ch q") auto
    qed
  qed
qed

lemma lookup_path_matches:
  "h \<in> set (lookup_path ts t) \<longleftrightarrow> (\<exists>P. h \<in> set (at_path P t) \<and> matches P ts)"
proof (induction ts arbitrary: t)
  case Nil
  show ?case
  proof
    assume "h \<in> set (lookup_path [] t)"
    then have "h \<in> set (at_path [] t) \<and> matches [] []" by simp
    then show "\<exists>P. h \<in> set (at_path P t) \<and> matches P []" by blast
  next
    assume "\<exists>P. h \<in> set (at_path P t) \<and> matches P []"
    then obtain P where P: "h \<in> set (at_path P t)" "matches P []" by blast
    then have "P = []" by (cases P) auto
    with P show "h \<in> set (lookup_path [] t)" by simp
  qed
next
  case (Cons s ss)
  show ?case
  proof
    assume "h \<in> set (lookup_path (s # ss) t)"
    then consider
        (lit) n where "node_children t s = Some n" "h \<in> set (lookup_path ss n)"
      | (plus) n where "node_children t ''+'' = Some n" "h \<in> set (lookup_path ss n)"
      | (hash) n where "node_children t ''#'' = Some n" "h \<in> set (node_handlers n)"
      by (cases "node_children t s"; cases "node_children t ''+''"; cases "node_children t ''#''")
        auto
    then show "\<exists>P. h \<in> set (at_path P t) \<and> matches P (s # ss)"
    proof cases
      case lit
      from lit(2) Cons.IH [of n] obtain P where "h \<in> set (at_path P n)" "matches P ss" by blast
      with lit(1) have "h \<in> set (at_path (s # P) t) \<and> matches (s # P) (s # ss)" by simp
      then show ?thesis by blast
    next
      case plus
      from plus(2) Cons.IH [of n] obtain P where "h \<in> set (at_path P n)" "matches P ss" by blast
      with plus(1) have "h \<in> set (at_path (''+'' # P) t) \<and> matches (''+'' # P) (s # ss)" by simp
      then show ?thesis by blast
    next
      case hash
      then have "h \<in> set (at_path [''#''] t) \<and> matches [''#''] (s # ss)" by simp
      then show ?thesis by blast
    qed
  next
    assume "\<exists>P. h \<in> set (at_path P t) \<and> matches P (s # ss)"
    then obtain P where P: "h \<in> set (at_path P t)" "matches P (s # ss)" by blast
    then obtain p ps where pp: "P = p # ps" by (cases P) auto
    with P(1) obtain n where n: "node_children t p = Some n" "h \<in> set (at_path ps n)"
      by (cases "node_children t p") auto
    from P(2) pp consider (step) "p = s \<or> p = ''+''" "matches ps ss" | (all) "p = ''#''" "ps = []"
      by auto
    then show "h \<in> set (lookup_path (s # ss) t)"
    proof cases
      case step
      from n(2) step(2) Cons.IH [of n] have "h \<in> set (lookup_path ss n)" by blast
      with step(1) n(1) show ?thesis by auto
    next
      case all
      with n show ?thesis by auto
    qed
  qed
qed

lemma registry_snoc:
  "registry_after (ops @ [x]) = trie_apply (registry_after ops) x"
  "registered (ops @ [x]) = spec_apply (registered ops) x"
  by (simp_all add: registry_after_def registered_def)

lemma registry_after_at_path:
  "at_path P (registry_after ops) =
     (if split_slash (join_slash P) = P then registered ops (join_slash P) else [])"
proof (induction ops arbitrary: P rule: rev_induct)
  case Nil
  show ?case by (simp add: registry_after_def registered_def newTrie_def at_path_empty)
next
  case (snoc x ops)
  show ?case
  proof (cases x)
    case (Add pattern h)
    have eq: "P = split_slash pattern \<longleftrightarrow> split_slash (join_slash P) = P \<and> join_slash P = pattern"
      using join_split_slash [of pattern] by auto
    show ?thesis
      using snoc.IH [of P] eq
      by (auto simp add: registry_snoc Add AddHandler_def at_path_add_path)
  next
    case (Remove pattern)
    have eq: "P = split_slash pattern \<longleftrightarrow> split_slash (join_slash P) = P \<and> join_slash P = pattern"
      using join_split_slash [of pattern] by auto
    show ?thesis
      using snoc.IH [of P] eq
      by (auto simp add: registry_snoc Remove RemoveHandler_def at_path_remove_path)
  qed
qed

lemma Lookup_registry_after:
  "h \<in> set (Lookup (registry_after ops) topic) \<longleftrightarrow>
     (\<exists>pattern. h \<in> set (registered ops pattern)
        \<and> matches (split_slash pattern) (split_slash topic))"
proof
  assume "h \<in> set (Lookup (registry_after ops) topic)"
  then obtain P where P: "h \<in> set (at_path P (registry_after ops))" "matches P (split_slash topic)"
    unfolding Lookup_def lookup_path_matches by blast
  from P(1) have sp: "split_slash (join_slash P) = P" and "h \<in> set (registered ops (join_slash P))"
    by (auto simp add: registry_after_at_path split: if_splits)
  with P(2) show "\<exists>pattern. h \<in> set (registered ops pattern)
        \<and> matches (split_slash pattern) (split_slash topic)"
    by auto
next
  assume "\<exists>pattern. h \<in> set (registered ops pattern)
        \<and> matches (split_slash pattern) (split_slash topic)"
  then obtain pattern where p: "h \<in> set (registered ops pattern)"
    "matches (split_slash pattern) (split_slash topic)" by blast
  have "at_path (split_slash pattern) (registry_after ops) = registered ops pattern"
    by (simp add: registry_after_at_path join_split_slash)
  with p have "h \<in> set (at_path (split_slash pattern) (registry_after ops))
      \<and> matches (split_slash pattern) (split_slash topic)"
    by simp
  then show "h \<in> set (Lookup (registry_after ops) topic)"
    unfolding Lookup_def lookup_path_matches by blast
qed

lemma Lookup_add_same:
  "h \<in> set (Lookup (AddHandler t channel h) channel)"
proof -
  have "lookup_path P (add_path P h t) \<noteq> [] \<and> h \<in> set (lookup_path P (add_path P h t))" for P
  proof (induction P arbitrary: t)
    case Nil
    show ?case by (cases t) simp
  next
    case (Cons s ss)
    obtain hs ch where t: "t = Trie hs ch" by (cases t)
    from Cons [of "case ch s of None \<Rightarrow> Trie [] Map.empty | Some n \<Rightarrow> n"] t
    show ?case by simp
  qed
  then show ?thesis by (simp add: Lookup_def AddHandler_def)
qed

lemma scenario_lookups:
  "Lookup (AddHandler newTrie ''a/+/c'' h) ''a/b/c'' = [h]"
  "Lookup (AddHandler newTrie ''a/+/c'' h) ''a/b/d/c'' = []"
  "Lookup (AddHandler newTrie ''a/#'' h) ''a/b'' = [h]"
  "Lookup (AddHandler newTrie ''a/#'' h) ''a/b/c/d'' = [h]"
  by (simp_all add: Lookup_def AddHandler_def newTrie_def)

lemma scenario_precedence:
  "Lookup (AddHandler (AddHandler (AddHandler newTrie ''a/#'' 1) ''a/+'' 2) ''a/b'' 3) ''a/b'' = [3, 2, 1]"
  by (simp add: Lookup_def AddHandler_def newTrie_def)

lemma scenario_matches:
  "matches (split_slash ''a/+/c'') (split_slash ''a/b/c'')"
  "\<not> matches (split_slash ''a/+/c'') (split_slash ''a/b/d/c'')"
  "matches (split_slash ''a/#'') (split_slash ''a/b'')"
  "matches (split_slash ''a/#'') (split_slash ''a/b/c/d'')"
  by simp_all

text \<open>
  Claim C8. In a registry reached from the empty one by any sequence of \<open>AddHandler\<close>
  and \<open>RemoveHandler\<close> operations, \<open>Lookup\<close> of a topic returns a handler exactly when
  the handler is bound to a pattern that matches the topic, where a literal segment
  matches itself, \<open>+\<close> matches one segment and a final \<open>#\<close> matches the remaining
  segments; the handlers reached through a literal segment come before those reached
  through \<open>+\<close>, which come before those of \<open>#\<close>. The pattern \<open>a/+/c\<close> matches the topic
  \<open>a/b/c\<close> and not \<open>a/b/d/c\<close>, and the pattern \<open>a/#\<close> matches \<open>a/b\<close> and \<open>a/b/c/d\<close>.
\<close>

theorem Lookup_returns_matching_handlers:
  "(h \<in> set (Lookup (registry_after ops) topic) \<longleftrightarrow>
      (\<exists>pattern. h \<in> set (registered ops pattern)
         \<and> matches (split_slash pattern) (split_slash topic)))
   \<and> lookup_path (s # ss) t =
       (case node_children t s of None \<Rightarrow> [] | Some n \<Rightarrow> lookup_path ss n)
       @ (case node_children t ''+'' of None \<Rightarrow> [] | Some n \<Rightarrow> lookup_path ss n)
       @ (case node_children t ''#'' of None \<Rightarrow> [] | Some n \<Rightarrow> node_handlers n)
   \<and> Lookup (AddHandler (AddHandler (AddHandler newTrie ''a/#'' 1) ''a/+'' 2) ''a/b'' 3) ''a/b''
       = [3, 2, 1]
   \<and> matches (split_slash ''a/+/c'') (split_slash ''a/b/c'')
   \<and> Lookup (AddHandler newTrie ''a/+/c'' g) ''a/b/c'' = [g]
   \<and> \<not> matches (split_slash ''a/+/c'') (split_slash ''a/b/d/c'')
   \<and> Lookup (AddHandler newTrie ''a/+/c'' g) ''a/b/d/c'' = []
   \<and> matches (split_slash ''a/#'') (split_slash ''a/b'')
   \<and> Lookup (AddHandler newTrie ''a/#'' g) ''a/b'' = [g]
   \<and> matches (split_slash ''a/#'') (split_slash ''a/b/c/d'')
   \<and> Lookup (AddHandler newTrie ''a/#'' g) ''a/b/c/d'' = [g]"
  using Lookup_registry_after [of h ops topic] scenario_lookups [of g] scenario_matches
    scenario_precedence
  by simp



section \<open>Subscriptions change the registry whatever the transport answers\<close>

lemma do_handlers: "do (c\<lparr>handlers := t\<rparr>) token = do c token"
  by (simp add: do_def)

lemma do_late_token: "do c (late_token rid) = Some ErrTimeout"
  by (simp add: do_def WaitTimeout_def late_token_def)

lemma do_failed_token: "do c (failed_token rid) = Some (TransportError ''not connected'')"
  by (simp add: do_def WaitTimeout_def failed_token_def)

lemma at_path_RemoveHandler: "at_path (split_slash channel) (RemoveHandler t channel) = []"
  by (simp add: RemoveHandler_def at_path_remove_path)

text \<open>
  Claim C10. \<open>Subscribe\<close> with a handler adds the handler to the registry and then
  issues the subscribe operation; the client it leaves holds the handler whatever the
  token of the operation answers, in particular when the call returns a timeout or a
  transport error. \<open>Unsubscribe\<close> removes the handlers bound to the channel and then
  issues the unsubscribe operation; they stay removed when the operation fails.
\<close>

theorem Subscribe_Unsubscribe_not_rolled_back:
  "Subscribe c token key channel (Some h) options
     = (do c token, c\<lparr>handlers := AddHandler (handlers c) channel h\<rparr>,
        [ConnSubscribe (formatTopic key channel options) 0])
   \<and> h \<in> set (Lookup (handlers (fst (snd (Subscribe c token key channel (Some h) options)))) channel)
   \<and> fst (Subscribe c (late_token rid) key channel (Some h) options) = Some ErrTimeout
   \<and> fst (Subscribe c (failed_token rid) key channel (Some h) options)
       = Some (TransportError ''not connected'')
   \<and> Unsubscribe c token key channel
     = (do c token, c\<lparr>handlers := RemoveHandler (handlers c) channel\<rparr>,
        [ConnUnsubscribe (formatTopic key channel [])])
   \<and> at_path (split_slash channel) (handlers (fst (snd (Unsubscribe c token key channel)))) = []
   \<and> fst (Unsubscribe c (late_token rid) key channel) = Some ErrTimeout
   \<and> fst (Unsubscribe c (failed_token rid) key channel) = Some (TransportError ''not connected'')"
  by (simp add: Subscribe_def Unsubscribe_def Let_def do_handlers do_late_token do_failed_token
      Lookup_add_same at_path_RemoveHandler)


end
